theory Spec2Isabelle
  imports Complex_Main "HOL-Library.AList"
begin

section \<open>Python floats\<close>

text \<open>
  A Python float is an IEEE double: a finite number, an infinity or NaN. Finite doubles
  are a subset of the reals, and the operations the alert engine applies to its inputs
  (comparison, \<open>abs\<close>, unary minus) are exact on doubles, so \<open>Fin r\<close> below is exact
  for them. Every comparison that involves NaN is false. The two signed zeros are
  identified (they compare equal in Python). Where the analytics modules add, multiply
  or divide finite numbers, the result is the real one: rounding and overflow are not
  modelled.
\<close>

datatype pyfloat = NaN | NInf | Fin real | PInf

fun fl_lt :: "pyfloat \<Rightarrow> pyfloat \<Rightarrow> bool" where
  "fl_lt NaN _ = False"
| "fl_lt _ NaN = False"
| "fl_lt NInf NInf = False"
| "fl_lt NInf _ = True"
| "fl_lt (Fin a) (Fin b) = (a < b)"
| "fl_lt (Fin a) PInf = True"
| "fl_lt (Fin a) NInf = False"
| "fl_lt PInf _ = False"

definition fl_le :: "pyfloat \<Rightarrow> pyfloat \<Rightarrow> bool" where
  "fl_le a b = (a \<noteq> NaN \<and> b \<noteq> NaN \<and> (fl_lt a b \<or> a = b))"

definition fl_gt :: "pyfloat \<Rightarrow> pyfloat \<Rightarrow> bool" where
  "fl_gt a b = fl_lt b a"

definition fl_ge :: "pyfloat \<Rightarrow> pyfloat \<Rightarrow> bool" where
  "fl_ge a b = fl_le b a"

fun fl_neg :: "pyfloat \<Rightarrow> pyfloat" where
  "fl_neg NaN = NaN"
| "fl_neg NInf = PInf"
| "fl_neg (Fin a) = Fin (- a)"
| "fl_neg PInf = NInf"

fun fl_abs :: "pyfloat \<Rightarrow> pyfloat" where
  "fl_abs NaN = NaN"
| "fl_abs NInf = PInf"
| "fl_abs (Fin a) = Fin \<bar>a\<bar>"
| "fl_abs PInf = PInf"

fun is_finite :: "pyfloat \<Rightarrow> bool" where
  "is_finite (Fin a) = True"
| "is_finite _ = False"

text \<open>
  Arithmetic as numpy and pandas do it on doubles: NaN propagates, the infinities follow
  the IEEE rules, and a division by zero gives an infinity or NaN instead of raising.
\<close>

fun fl_add :: "pyfloat \<Rightarrow> pyfloat \<Rightarrow> pyfloat" where
  "fl_add NaN _ = NaN"
| "fl_add _ NaN = NaN"
| "fl_add PInf NInf = NaN"
| "fl_add NInf PInf = NaN"
| "fl_add PInf _ = PInf"
| "fl_add _ PInf = PInf"
| "fl_add NInf _ = NInf"
| "fl_add _ NInf = NInf"
| "fl_add (Fin a) (Fin b) = Fin (a + b)"

definition fl_sub :: "pyfloat \<Rightarrow> pyfloat \<Rightarrow> pyfloat" where
  "fl_sub a b = fl_add a (fl_neg b)"

fun fl_sign :: "pyfloat \<Rightarrow> int" where
  "fl_sign NaN = 0"
| "fl_sign NInf = - 1"
| "fl_sign PInf = 1"
| "fl_sign (Fin a) = (if a < 0 then - 1 else if a = 0 then 0 else 1)"

fun fl_mul :: "pyfloat \<Rightarrow> pyfloat \<Rightarrow> pyfloat" where
  "fl_mul NaN _ = NaN"
| "fl_mul _ NaN = NaN"
| "fl_mul (Fin a) (Fin b) = Fin (a * b)"
| "fl_mul a b =
     (if fl_sign a * fl_sign b = 0 then NaN
      else if fl_sign a * fl_sign b > 0 then PInf else NInf)"

fun fl_div :: "pyfloat \<Rightarrow> pyfloat \<Rightarrow> pyfloat" where
  "fl_div NaN _ = NaN"
| "fl_div _ NaN = NaN"
| "fl_div (Fin a) (Fin b) =
     (if b \<noteq> 0 then Fin (a / b)
      else if a = 0 then NaN else if a > 0 then PInf else NInf)"
| "fl_div (Fin a) _ = Fin 0"
| "fl_div _ PInf = NaN"
| "fl_div _ NInf = NaN"
| "fl_div PInf (Fin b) = (if b < 0 then NInf else PInf)"
| "fl_div NInf (Fin b) = (if b < 0 then PInf else NInf)"

section \<open>Python values and truth\<close>

text \<open>
  The values a result dictionary can hold, with Python's truth value: \<open>None\<close>,
  \<open>False\<close>, zero and the empty string are false, everything else (NaN included) is true.
\<close>

datatype pyval = PyNone | PyBool bool | PyInt int | PyFloat pyfloat | PyStr string

fun truthy :: "pyval \<Rightarrow> bool" where
  "truthy PyNone = False"
| "truthy (PyBool b) = b"
| "truthy (PyInt i) = (i \<noteq> 0)"
| "truthy (PyFloat f) = (f \<noteq> Fin 0)"
| "truthy (PyStr s) = (s \<noteq> [])"

type_synonym pydict = "string \<Rightarrow> pyval option"

definition dict_get :: "pydict \<Rightarrow> string \<Rightarrow> pyval \<Rightarrow> pyval" where
  "dict_get d k dflt = (case d k of None \<Rightarrow> dflt | Some v \<Rightarrow> v)"

section \<open>The alert engine (app/alerts/alert\_engine.py)\<close>

datatype signal = LONG | SHORT

text \<open>
  The reason text of an alert is an f-string over the z-score and the threshold; it is
  kept as the tag of the branch with the two numbers it renders.
\<close>

datatype reason = Overbought pyfloat pyfloat | Oversold pyfloat pyfloat

record alert =
  timestamp :: string
  signal :: signal
  z_score :: pyfloat
  correlation :: pyfloat
  reason :: reason

text \<open>\<open>current_state\<close> is \<open>None\<close>, \<open>'LONG'\<close> or \<open>'SHORT'\<close> in the source.\<close>

record alert_engine =
  threshold :: pyfloat
  reset_threshold :: pyfloat
  min_correlation :: pyfloat
  current_state :: "signal option"

definition init_engine :: "pyfloat \<Rightarrow> pyfloat \<Rightarrow> pyfloat \<Rightarrow> alert_engine" where
  "init_engine t r c =
     \<lparr>threshold = t, reset_threshold = r, min_correlation = c, current_state = None\<rparr>"

text \<open>
  \<open>evaluate\<close> mutates \<open>self.current_state\<close> and returns an alert dictionary or
  \<open>None\<close>: the model returns the engine after the call and the optional alert. An
  argument that is Python's \<open>None\<close> is \<open>None\<close> here.
\<close>

definition evaluate ::
  "alert_engine \<Rightarrow> pyfloat option \<Rightarrow> pyfloat option \<Rightarrow> pydict option \<Rightarrow> string
     \<Rightarrow> alert_engine \<times> alert option" where
  "evaluate e z_opt c_opt adf_opt ts =
     (case z_opt of None \<Rightarrow> (e, None) | Some z \<Rightarrow>
      case c_opt of None \<Rightarrow> (e, None) | Some c \<Rightarrow>
      case adf_opt of None \<Rightarrow> (e, None) | Some adf \<Rightarrow>
        if current_state e \<noteq> None then
          (if fl_lt (fl_abs z) (reset_threshold e)
           then (e\<lparr>current_state := None\<rparr>, None)
           else (e, None))
        else if fl_lt c (min_correlation e) then (e, None)
        else if \<not> truthy (dict_get adf ''is_stationary'' (PyBool False)) then (e, None)
        else if fl_ge z (threshold e) then
          (e\<lparr>current_state := Some SHORT\<rparr>,
           Some \<lparr>timestamp = ts, signal = SHORT, z_score = z, correlation = c,
                 reason = Overbought z (threshold e)\<rparr>)
        else if fl_le z (fl_neg (threshold e)) then
          (e\<lparr>current_state := Some LONG\<rparr>,
           Some \<lparr>timestamp = ts, signal = LONG, z_score = z, correlation = c,
                 reason = Oversold z (threshold e)\<rparr>)
        else (e, None))"

text \<open>One call's arguments, and a run of calls on one engine.\<close>

record eval_args =
  arg_z :: "pyfloat option"
  arg_corr :: "pyfloat option"
  arg_adf :: "pydict option"
  arg_ts :: string

definition evaluate_args :: "alert_engine \<Rightarrow> eval_args \<Rightarrow> alert_engine \<times> alert option" where
  "evaluate_args e a = evaluate e (arg_z a) (arg_corr a) (arg_adf a) (arg_ts a)"

fun engine_after :: "alert_engine \<Rightarrow> eval_args list \<Rightarrow> alert_engine" where
  "engine_after e [] = e"
| "engine_after e (a # as) = engine_after (fst (evaluate_args e a)) as"

text \<open>
  A call is a reset when the engine holds a signal, all three inputs are given and
  \<open>|z| < reset_threshold\<close>.
\<close>

definition is_reset_call :: "alert_engine \<Rightarrow> eval_args \<Rightarrow> bool" where
  "is_reset_call e a =
     (current_state e \<noteq> None \<and> arg_corr a \<noteq> None \<and> arg_adf a \<noteq> None \<and>
      (case arg_z a of None \<Rightarrow> False | Some z \<Rightarrow> fl_lt (fl_abs z) (reset_threshold e)))"

section \<open>The live alert check (app/ingestion/binance\_ws.py, update\_alerts)\<close>

text \<open>\<open>TradingConfig\<close> of app/api/routes.py, read through \<open>CURRENT_CONFIG\<close>.\<close>

record trading_config =
  zscore_entry_threshold :: pyfloat
  zscore_exit_threshold :: pyfloat
  cfg_min_correlation :: pyfloat

definition default_config :: trading_config where
  "default_config =
     \<lparr>zscore_entry_threshold = Fin 2, zscore_exit_threshold = Fin (1/2),
      cfg_min_correlation = Fin (7/10)\<rparr>"

text \<open>The data point that \<open>update_analytics\<close> builds and hands to \<open>update_alerts\<close>.\<close>

record data_point =
  dp_timestamp :: string
  dp_zscore :: pyfloat
  dp_spread :: pyfloat
  dp_correlation :: "pyfloat option"
  dp_hedge_ratio :: pyfloat

text \<open>
  The shared \<open>latest_alert\<close> dictionary. Its reason is either the text it starts with
  or the f-string of \<open>update_alerts\<close>, kept as the signal, the z-score and the
  correlation it renders (\<open>'N/A'\<close>, here \<open>None\<close>, when the correlation is \<open>None\<close> or zero).
\<close>

datatype alert_text = Text string | Crossed string pyfloat "pyfloat option"

record latest_alert =
  la_timestamp :: string
  la_type :: string
  la_signal :: string
  la_z_score :: pyfloat
  la_reason :: alert_text

definition update_alerts :: "trading_config \<Rightarrow> data_point \<Rightarrow> latest_alert \<Rightarrow> latest_alert" where
  "update_alerts cfg d la =
     (let z = dp_zscore d;
          threshold = zscore_entry_threshold cfg;
          min_corr = cfg_min_correlation cfg;
          corr = dp_correlation d
      in if (case corr of None \<Rightarrow> False | Some c \<Rightarrow> fl_lt c min_corr) then la
         else
           let alert_signal =
                 (if fl_gt z threshold then ''SHORT''
                  else if fl_lt z (fl_neg threshold) then ''LONG''
                  else ''NONE'')
           in if alert_signal \<noteq> ''NONE'' then
                la\<lparr>la_timestamp := dp_timestamp d, la_type := ''SIGNAL'',
                   la_signal := alert_signal, la_z_score := z,
                   la_reason := Crossed alert_signal z
                     (case corr of None \<Rightarrow> None
                      | Some c \<Rightarrow> if c = Fin 0 then None else Some c)\<rparr>
              else la)"


text \<open>
  The engine and the inputs of tests/test\_alerts.py: thresholds 2.0, 0.5 and 0.7, the
  two stationarity dictionaries, and a call with a given z-score and correlation.
\<close>

definition test_engine :: alert_engine where
  "test_engine = init_engine (Fin 2) (Fin (1/2)) (Fin (7/10))"

definition adf_stationary :: pydict where
  "adf_stationary = [''is_stationary'' \<mapsto> PyBool True]"

definition adf_non_stationary :: pydict where
  "adf_non_stationary = [''is_stationary'' \<mapsto> PyBool False]"

definition test_call :: "real \<Rightarrow> real \<Rightarrow> pydict \<Rightarrow> eval_args" where
  "test_call z c adf =
     \<lparr>arg_z = Some (Fin z), arg_corr = Some (Fin c), arg_adf = Some adf,
      arg_ts = ''2025-01-01T10:00:00''\<rparr>"

text \<open>The \<open>latest_alert\<close> dictionary as app/api/routes.py creates it.\<close>

definition initial_latest_alert :: "string \<Rightarrow> latest_alert" where
  "initial_latest_alert now =
     \<lparr>la_timestamp = now, la_type = ''SIGNAL'', la_signal = ''SHORT'',
      la_z_score = Fin (5/2), la_reason = Text ''Z-Score crossed upper threshold''\<rparr>"

section \<open>Rolling z-score (app/analytics/zscore.py)\<close>

text \<open>
  The input series holds finite numbers. \<open>np_mean\<close> is the arithmetic mean,
  \<open>var_ddof d\<close> the variance with denominator \<open>N - d\<close>: \<open>d = 1\<close> is pandas'
  \<open>std(ddof=1)\<close>, \<open>d = 0\<close> is numpy's \<open>np.std\<close>. Both are computed over the
  reals. The doubles of the program agree with them up to rounding, and differ where an
  intermediate result underflows or overflows: a variance below the smallest double is
  zero there, and the z-score of such a window is NaN. What is stated about every
  series below is therefore limited to what no rounding can change: where the result is
  NaN by construction, and that it is never an infinity; values are stated at given
  inputs only.
\<close>

datatype exn = ValueError | IndexError

definition np_mean :: "real list \<Rightarrow> real" where
  "np_mean xs = sum_list xs / real (length xs)"

definition var_ddof :: "nat \<Rightarrow> real list \<Rightarrow> real" where
  "var_ddof d xs =
     sum_list (map (\<lambda>x. (x - np_mean xs)\<^sup>2) xs) / (real (length xs) - real d)"

definition sample_std :: "real list \<Rightarrow> real" where
  "sample_std xs = sqrt (var_ddof 1 xs)"

definition np_std :: "real list \<Rightarrow> real" where
  "np_std xs = sqrt (var_ddof 0 xs)"

text \<open>
  \<open>s.rolling(window=w)\<close>: position \<open>i\<close> sees the \<open>w\<close> values that end at \<open>i\<close>, and
  is NaN while fewer than \<open>w\<close> values have been seen.
\<close>

definition window_at :: "real list \<Rightarrow> nat \<Rightarrow> nat \<Rightarrow> real list" where
  "window_at xs w i = take w (drop (i + 1 - w) xs)"

definition rolling :: "(real list \<Rightarrow> real) \<Rightarrow> real list \<Rightarrow> nat \<Rightarrow> pyfloat list" where
  "rolling f xs w =
     map (\<lambda>i. if i + 1 < w then NaN else Fin (f (window_at xs w i))) [0..<length xs]"

definition replace_inf :: "pyfloat \<Rightarrow> pyfloat" where
  "replace_inf v = (if v = PInf \<or> v = NInf then NaN else v)"

definition compute_zscore :: "real list \<Rightarrow> int \<Rightarrow> exn + pyfloat list" where
  "compute_zscore series window =
     (if window \<le> 1 then Inl ValueError
      else if length series = 0 then Inr []
      else
        let r_mean = rolling np_mean series (nat window);
            r_std = rolling sample_std series (nat window);
            z_score = map (\<lambda>(x, m, sd). fl_div (fl_sub (Fin x) m) sd)
                        (zip series (zip r_mean r_std))
        in Inr (map replace_inf z_score))"

section \<open>The live analytics update (app/ingestion/binance\_ws.py)\<close>

text \<open>
  The module's state: the three \<open>deque(maxlen=WINDOW_SIZE)\<close> buffers, and the
  \<open>history_data\<close> list and \<open>latest_alert\<close> dictionary shared with the API. Prices are
  finite numbers.
\<close>

definition WINDOW_SIZE :: nat where
  "WINDOW_SIZE = 50"

record ws_state =
  btc_prices :: "real list"
  eth_prices :: "real list"
  spread_history :: "real list"
  history_data :: "data_point list"
  shared_alert :: latest_alert

text \<open>
  \<open>append\<close> on a \<open>deque(maxlen=n)\<close>: a full deque drops its oldest element; a deque
  of capacity zero stays empty.
\<close>

definition deque_append :: "nat \<Rightarrow> 'a list \<Rightarrow> 'a \<Rightarrow> 'a list" where
  "deque_append maxlen xs x =
     (if maxlen = 0 then []
      else if length xs \<ge> maxlen then tl xs @ [x] else xs @ [x])"

text \<open>\<open>xs[-n:]\<close>: the last \<open>n\<close> elements, and the whole list for \<open>n = 0\<close>.\<close>

definition py_tail :: "nat \<Rightarrow> 'a list \<Rightarrow> 'a list" where
  "py_tail n xs = (if n = 0 then xs else drop (length xs - n) xs)"

text \<open>
  \<open>np.corrcoef(x, y)[0, 1]\<close>: the covariance over the product of the standard
  deviations (all with denominator \<open>N - 1\<close>), clipped to \<open>[-1, 1]\<close>.
\<close>

definition np_cov :: "real list \<Rightarrow> real list \<Rightarrow> real" where
  "np_cov xs ys =
     sum_list (map (\<lambda>(x, y). (x - np_mean xs) * (y - np_mean ys)) (zip xs ys))
       / (real (length xs) - 1)"

definition np_corrcoef :: "real list \<Rightarrow> real list \<Rightarrow> real" where
  "np_corrcoef xs ys =
     max (- 1) (min 1 (np_cov xs ys / sqrt (np_cov xs xs) / sqrt (np_cov ys ys)))"

definition HEDGE_RATIO :: real where
  "HEDGE_RATIO = 25"

text \<open>
  \<open>update_analytics\<close> reads the last price of both buffers (an \<open>IndexError\<close> on an empty
  one), pushes the new spread, and returns early while the spread window holds fewer
  than five values; otherwise it computes the z-score and the correlation, appends the
  data point to \<open>history_data\<close> and checks the alert.
\<close>

definition update_analytics :: "trading_config \<Rightarrow> string \<Rightarrow> ws_state \<Rightarrow> exn + ws_state" where
  "update_analytics cfg ts s =
     (if btc_prices s = [] \<or> eth_prices s = [] then Inl IndexError
      else
        let current_btc = last (btc_prices s);
            current_eth = last (eth_prices s);
            spread = current_btc - HEDGE_RATIO * current_eth;
            spreads = deque_append WINDOW_SIZE (spread_history s) spread;
            s1 = s\<lparr>spread_history := spreads\<rparr>
        in if length spreads < 5 then Inr s1
           else
             let mean_spread = np_mean spreads;
                 std_spread = np_std spreads;
                 zscore = (if std_spread > 1 / 10 ^ 6
                           then (spread - mean_spread) / std_spread else 0);
                 min_len = min (length (btc_prices s)) (length (eth_prices s));
                 btc_arr = py_tail min_len (btc_prices s);
                 eth_arr = py_tail min_len (eth_prices s);
                 corr = (if length btc_arr < 20 \<or> np_std btc_arr < 1 / 10 ^ 6
                            \<or> np_std eth_arr < 1 / 10 ^ 6
                         then None else Some (Fin (np_corrcoef btc_arr eth_arr)));
                 new_data_point =
                   \<lparr>dp_timestamp = ts, dp_zscore = Fin zscore, dp_spread = Fin spread,
                    dp_correlation = corr, dp_hedge_ratio = Fin HEDGE_RATIO\<rparr>;
                 history = history_data s @ [new_data_point];
                 history' = (if length history > WINDOW_SIZE then tl history else history)
             in Inr (s1\<lparr>history_data := history',
                        shared_alert := update_alerts cfg new_data_point (shared_alert s)\<rparr>))"

text \<open>
  \<open>process_message\<close> appends the price to the buffer of its symbol and, once both
  buffers hold more than one price, updates the analytics. An exception raised on the
  way is caught and logged: the state stays as it was when it was raised.
\<close>

definition process_message ::
  "trading_config \<Rightarrow> string \<Rightarrow> string \<Rightarrow> real \<Rightarrow> ws_state \<Rightarrow> ws_state" where
  "process_message cfg ts symbol price s =
     (if symbol \<noteq> ''BTCUSDT'' \<and> symbol \<noteq> ''ETHUSDT'' then s
      else
        let s1 = (if symbol = ''BTCUSDT''
                  then s\<lparr>btc_prices := deque_append WINDOW_SIZE (btc_prices s) price\<rparr>
                  else s\<lparr>eth_prices := deque_append WINDOW_SIZE (eth_prices s) price\<rparr>)
        in if length (btc_prices s1) > 1 \<and> length (eth_prices s1) > 1
           then (case update_analytics cfg ts s1 of Inl _ \<Rightarrow> s1 | Inr s2 \<Rightarrow> s2)
           else s1)"

fun process_messages ::
  "trading_config \<Rightarrow> (string \<times> string \<times> real) list \<Rightarrow> ws_state \<Rightarrow> ws_state" where
  "process_messages cfg [] s = s"
| "process_messages cfg ((ts, symbol, price) # ms) s =
     process_messages cfg ms (process_message cfg ts symbol price s)"

text \<open>
  The state at start-up: empty buffers, the \<open>history_data\<close> list that
  app/api/routes.py has filled with generated points, and its \<open>latest_alert\<close>.
\<close>

definition initial_ws_state :: "string \<Rightarrow> data_point list \<Rightarrow> ws_state" where
  "initial_ws_state now generated =
     \<lparr>btc_prices = [], eth_prices = [], spread_history = [], history_data = generated,
      shared_alert = initial_latest_alert now\<rparr>"

text \<open>
  Three message sequences for the live path, all with the ETH price at 1, so that the
  spread is the BTC price minus 25: five pushes with the spreads -3, -1, 0, 1, 3; five
  pushes of a constant spread; and nine pushes of the spread 0 followed by the spread 10.
\<close>

definition warmup_messages :: "(string \<times> string \<times> real) list" where
  "warmup_messages =
     [(''t1'', ''ETHUSDT'', 1), (''t2'', ''ETHUSDT'', 1), (''t3'', ''BTCUSDT'', 50),
      (''t4'', ''BTCUSDT'', 22), (''t5'', ''BTCUSDT'', 24), (''t6'', ''BTCUSDT'', 25),
      (''t7'', ''BTCUSDT'', 26), (''t8'', ''BTCUSDT'', 28)]"


definition spike_messages :: "(string \<times> string \<times> real) list" where
  "spike_messages =
     [(''t1'', ''ETHUSDT'', 1), (''t2'', ''ETHUSDT'', 1)] @ replicate 10 (''t3'', ''BTCUSDT'', 25)
       @ [(''t4'', ''BTCUSDT'', 35)]"


section \<open>Hedge ratio and spread (app/analytics/hedge\_ratio.py, spread.py)\<close>

text \<open>
  Both functions turn their inputs into float arrays first. \<open>np.polyfit\<close> belongs to
  numpy, not to this repository: it is a parameter here, giving the slope and the
  intercept, or \<open>None\<close> when it raises (which \<open>compute_hedge_ratio\<close> catches).
\<close>

type_synonym polyfit = "pyfloat list \<Rightarrow> pyfloat list \<Rightarrow> (pyfloat \<times> pyfloat) option"

definition compute_hedge_ratio ::
  "polyfit \<Rightarrow> pyfloat list \<Rightarrow> pyfloat list \<Rightarrow> exn + pyfloat option" where
  "compute_hedge_ratio np_polyfit x y =
     (if length x \<noteq> length y then Inl ValueError
      else if length x < 2 then Inr None
      else if \<not> list_all is_finite x \<or> \<not> list_all is_finite y then Inr None
      else case np_polyfit x y of
             None \<Rightarrow> Inr None
           | Some (slope, intercept) \<Rightarrow> Inr (Some slope))"

definition compute_spread ::
  "pyfloat list \<Rightarrow> pyfloat list \<Rightarrow> pyfloat option \<Rightarrow> exn + pyfloat list" where
  "compute_spread x y hedge_ratio =
     (case hedge_ratio of
        None \<Rightarrow> Inl ValueError
      | Some h \<Rightarrow>
          if length x \<noteq> length y then Inl ValueError
          else Inr (map (\<lambda>(xi, yi). fl_sub yi (fl_mul h xi)) (zip x y)))"

text \<open>A fit that always raises, for calls that never reach the fit.\<close>

definition failing_polyfit :: polyfit where
  "failing_polyfit x y = None"

section \<open>The bar sampler (app/sampling/sampler.py)\<close>

text \<open>
  A \<open>datetime\<close> has microsecond resolution: times are integers, the microseconds since
  the epoch, and a period of \<open>p\<close> seconds is \<open>p * 1000000\<close> of them. Prices and
  quantities are finite numbers.
\<close>

record bar =
  bar_symbol :: string
  start_time :: int
  end_time :: int
  bar_open :: real
  bar_high :: real
  bar_low :: real
  bar_close :: real
  bar_volume :: real
  bar_count :: nat

record tick =
  tick_timestamp :: int
  tick_symbol :: string
  tick_price :: real
  tick_quantity :: real

definition seconds :: "int \<Rightarrow> int" where
  "seconds p = p * 1000000"

definition timeframes :: "int list" where
  "timeframes = [1, 60, 300]"

text \<open>
  \<open>active_bars\<close> is a dictionary from \<open>(symbol, timeframe)\<close> to the current bar; it is
  an association list in insertion order, as a Python dictionary iterates. The logger's
  output is the list \<open>emitted\<close> of the bars that \<open>_finalize_bar\<close> logged, each with its
  timeframe. \<open>finalized\<close> records every call of \<open>_finalize_bar\<close>, logged or not; no
  code reads it.
\<close>

record sampler =
  active_bars :: "((string \<times> int) \<times> bar) list"
  emitted :: "(int \<times> bar) list"
  finalized :: "(int \<times> bar) list"

definition new_sampler :: sampler where
  "new_sampler = \<lparr>active_bars = [], emitted = [], finalized = []\<rparr>"

definition get_period_start :: "int \<Rightarrow> int \<Rightarrow> int" where
  "get_period_start ts period_seconds = (ts div seconds period_seconds) * seconds period_seconds"

definition create_bar :: "string \<Rightarrow> int \<Rightarrow> int \<Rightarrow> real \<Rightarrow> real \<Rightarrow> bar" where
  "create_bar symbol start period_seconds price qty =
     \<lparr>bar_symbol = symbol, start_time = start, end_time = start + seconds period_seconds,
      bar_open = price, bar_high = price, bar_low = price, bar_close = price,
      bar_volume = qty, bar_count = 1\<rparr>"

definition update_bar :: "bar \<Rightarrow> real \<Rightarrow> real \<Rightarrow> bar" where
  "update_bar b price qty =
     b\<lparr>bar_high := max (bar_high b) price, bar_low := min (bar_low b) price,
       bar_close := price, bar_volume := bar_volume b + qty, bar_count := bar_count b + 1\<rparr>"

definition discarded :: "bar \<Rightarrow> bool" where
  "discarded b = (bar_volume b \<le> 0 \<or> bar_close b \<le> 0)"

definition finalize_bar :: "int \<Rightarrow> bar \<Rightarrow> sampler \<Rightarrow> sampler" where
  "finalize_bar timeframe_sec b s =
     (if discarded b then s\<lparr>finalized := finalized s @ [(timeframe_sec, b)]\<rparr>
      else s\<lparr>emitted := emitted s @ [(timeframe_sec, b)],
             finalized := finalized s @ [(timeframe_sec, b)]\<rparr>)"

text \<open>
  \<open>_check_buffer_closures\<close> walks a snapshot of the keys and finalizes and deletes
  every bar whose end time the clock has passed.
\<close>

fun closures_loop :: "int \<Rightarrow> ((string \<times> int) \<times> bar) list \<Rightarrow> sampler \<Rightarrow> sampler" where
  "closures_loop now [] s = s"
| "closures_loop now ((key, b) # rest) s =
     closures_loop now rest
       (if now > end_time b
        then (finalize_bar (snd key) b s)\<lparr>active_bars := AList.delete key (active_bars s)\<rparr>
        else s)"

definition check_buffer_closures :: "int \<Rightarrow> sampler \<Rightarrow> sampler" where
  "check_buffer_closures now s = closures_loop now (active_bars s) s"

text \<open>The body of the loop over the timeframes in \<open>process_tick\<close>.\<close>

definition late :: "int \<Rightarrow> tick \<Rightarrow> int \<Rightarrow> bool" where
  "late now t tf = (get_period_start (tick_timestamp t) tf + seconds tf < now)"

definition timeframe_step :: "int \<Rightarrow> tick \<Rightarrow> int \<Rightarrow> sampler \<Rightarrow> sampler" where
  "timeframe_step now t tf s =
     (let key = (tick_symbol t, tf);
          period_start = get_period_start (tick_timestamp t) tf;
          period_end = period_start + seconds tf
      in if period_end < now then s
         else case map_of (active_bars s) key of
                Some current_bar \<Rightarrow>
                  if period_start = start_time current_bar then
                    s\<lparr>active_bars := AList.update key
                         (update_bar current_bar (tick_price t) (tick_quantity t))
                         (active_bars s)\<rparr>
                  else
                    (finalize_bar tf current_bar s)
                      \<lparr>active_bars := AList.update key
                         (create_bar (tick_symbol t) period_start tf
                            (tick_price t) (tick_quantity t))
                         (active_bars s)\<rparr>
              | None \<Rightarrow>
                  s\<lparr>active_bars := AList.update key
                       (create_bar (tick_symbol t) period_start tf
                          (tick_price t) (tick_quantity t))
                       (active_bars s)\<rparr>)"

text \<open>
  \<open>process_tick\<close> reads the clock twice, in the closure sweep and before the loop:
  both readings are arguments. An empty tick is \<open>None\<close>.
\<close>

definition process_tick :: "int \<Rightarrow> int \<Rightarrow> tick option \<Rightarrow> sampler \<Rightarrow> sampler" where
  "process_tick now_sweep now t_opt s =
     (let s1 = check_buffer_closures now_sweep s
      in case t_opt of
           None \<Rightarrow> s1
         | Some t \<Rightarrow> fold (timeframe_step now t) timeframes s1)"

type_synonym tick_event = "int \<times> int \<times> tick option"

fun process_ticks :: "tick_event list \<Rightarrow> sampler \<Rightarrow> sampler" where
  "process_ticks [] s = s"
| "process_ticks ((now_sweep, now, t_opt) # es) s =
     process_ticks es (process_tick now_sweep now t_opt s)"

text \<open>
  The number of ticks of a symbol that the loop admits for a timeframe (those that are
  not late), and the sum of the trade counts of the bars of a symbol and timeframe in a
  list of finalized bars.
\<close>

fun admitted :: "string \<Rightarrow> int \<Rightarrow> tick_event list \<Rightarrow> nat" where
  "admitted sy tf [] = 0"
| "admitted sy tf ((now_sweep, now, None) # es) = admitted sy tf es"
| "admitted sy tf ((now_sweep, now, Some t) # es) =
     (if tick_symbol t = sy \<and> tf \<in> set timeframes \<and> \<not> late now t tf then 1 else 0)
       + admitted sy tf es"

definition trade_count_sum :: "string \<Rightarrow> int \<Rightarrow> (int \<times> bar) list \<Rightarrow> nat" where
  "trade_count_sum sy tf bars =
     sum_list (map (\<lambda>(tf', b). bar_count b)
                (filter (\<lambda>(tf', b). tf' = tf \<and> bar_symbol b = sy) bars))"

definition open_count :: "string \<Rightarrow> int \<Rightarrow> sampler \<Rightarrow> nat" where
  "open_count sy tf s =
     (case map_of (active_bars s) (sy, tf) of None \<Rightarrow> 0 | Some b \<Rightarrow> bar_count b)"

text \<open>What the spec asks of a bar of a timeframe.\<close>

definition bar_ok :: "int \<Rightarrow> bar \<Rightarrow> bool" where
  "bar_ok tf b =
     (seconds tf dvd start_time b \<and> end_time b = start_time b + seconds tf \<and>
      bar_high b \<ge> max (bar_open b) (bar_close b) \<and>
      bar_low b \<le> min (bar_open b) (bar_close b))"

text \<open>
  A tick with quantity zero and a later tick of another symbol, 400 seconds on.
\<close>

definition zero_quantity_events :: "tick_event list" where
  "zero_quantity_events =
     [(0, 0, Some \<lparr>tick_timestamp = 0, tick_symbol = ''BTCUSDT'', tick_price = 100,
                   tick_quantity = 0\<rparr>),
      (seconds 400, seconds 400,
       Some \<lparr>tick_timestamp = seconds 400, tick_symbol = ''ETHUSDT'', tick_price = 4,
             tick_quantity = 1\<rparr>)]"

text \<open>
  Two trades of one symbol in the same second, and a tick of another symbol 400 seconds
  later, which sweeps the three bars of the first.
\<close>

definition two_trade_events :: "tick_event list" where
  "two_trade_events =
     [(0, 0, Some \<lparr>tick_timestamp = 0, tick_symbol = ''BTCUSDT'', tick_price = 100,
                   tick_quantity = 1\<rparr>),
      (500000, 500000,
       Some \<lparr>tick_timestamp = 500000, tick_symbol = ''BTCUSDT'', tick_price = 101,
             tick_quantity = 2\<rparr>),
      (seconds 400, seconds 400,
       Some \<lparr>tick_timestamp = seconds 400, tick_symbol = ''ETHUSDT'', tick_price = 4,
             tick_quantity = 1\<rparr>)]"

text \<open>
  The invariant of the sampler used in the proofs: the keys of \<open>active_bars\<close> are
  distinct, a bar stored under \<open>(symbol, timeframe)\<close> carries that symbol and is
  \<open>bar_ok\<close> for that timeframe, so is every finalized bar, and the emitted bars are
  the finalized ones that were not discarded. \<open>total_count\<close> is the trade count of a
  key's finalized bars plus that of its open bar; \<open>no_discard\<close> says that no bar
  held or finalized would be discarded; \<open>positive_ticks\<close> that every tick has a
  positive price and quantity.
\<close>

definition sampler_inv :: "sampler \<Rightarrow> bool" where
  "sampler_inv s =
     (distinct (map fst (active_bars s)) \<and>
      (\<forall>(k, b) \<in> set (active_bars s). bar_symbol b = fst k \<and> bar_ok (snd k) b) \<and>
      (\<forall>(tf, b) \<in> set (finalized s). bar_ok tf b) \<and>
      emitted s = filter (\<lambda>(tf, b). \<not> discarded b) (finalized s))"

definition total_count :: "string \<Rightarrow> int \<Rightarrow> sampler \<Rightarrow> nat" where
  "total_count sy tf s = trade_count_sum sy tf (finalized s) + open_count sy tf s"

definition no_discard :: "sampler \<Rightarrow> bool" where
  "no_discard s =
     ((\<forall>(k, b) \<in> set (active_bars s). \<not> discarded b) \<and>
      (\<forall>(tf, b) \<in> set (finalized s). \<not> discarded b))"

definition positive_ticks :: "tick_event list \<Rightarrow> bool" where
  "positive_ticks es =
     (\<forall>(now_sweep, now, t_opt) \<in> set es.
        case t_opt of None \<Rightarrow> True | Some t \<Rightarrow> tick_price t > 0 \<and> tick_quantity t > 0)"

section \<open>Properties of the alert engine\<close>

lemma evaluate_params:
  "threshold (fst (evaluate e z c adf ts)) = threshold e \<and>
   reset_threshold (fst (evaluate e z c adf ts)) = reset_threshold e \<and>
   min_correlation (fst (evaluate e z c adf ts)) = min_correlation e"
  by (simp add: evaluate_def split: option.splits)

lemma evaluate_alert_needs_idle:
  "snd (evaluate e z c adf ts) \<noteq> None \<Longrightarrow> current_state e = None"
  by (auto simp: evaluate_def split: option.splits if_splits)

lemma evaluate_alert_enters:
  "snd (evaluate e z c adf ts) \<noteq> None \<Longrightarrow> current_state (fst (evaluate e z c adf ts)) \<noteq> None"
  by (auto simp: evaluate_def split: option.splits if_splits)

lemma evaluate_leaves_only_by_reset:
  assumes "current_state e \<noteq> None"
    and "current_state (fst (evaluate_args e a)) = None"
  shows "is_reset_call e a \<and> snd (evaluate_args e a) = None"
  using assms
  by (auto simp: evaluate_args_def evaluate_def is_reset_call_def
      split: option.splits if_splits)

lemma reset_between:
  assumes "current_state e \<noteq> None"
    and "current_state (engine_after e mid) = None"
  shows "\<exists>mid1 r mid2. mid = mid1 @ r # mid2 \<and>
           is_reset_call (engine_after e mid1) r \<and>
           current_state (fst (evaluate_args (engine_after e mid1) r)) = None \<and>
           snd (evaluate_args (engine_after e mid1) r) = None"
  using assms
proof (induction mid arbitrary: e)
  case Nil
  then show ?case by simp
next
  case (Cons a as)
  show ?case
  proof (cases "current_state (fst (evaluate_args e a)) = None")
    case True
    with Cons.prems(1) have "is_reset_call e a \<and> snd (evaluate_args e a) = None"
      by (rule_tac evaluate_leaves_only_by_reset)
    with True have
      "a # as = [] @ a # as \<and> is_reset_call (engine_after e []) a \<and>
       current_state (fst (evaluate_args (engine_after e []) a)) = None \<and>
       snd (evaluate_args (engine_after e []) a) = None"
      by simp
    then show ?thesis by blast
  next
    case False
    moreover from Cons.prems(2)
    have "current_state (engine_after (fst (evaluate_args e a)) as) = None" by simp
    ultimately obtain mid1 r mid2 where
      m: "as = mid1 @ r # mid2"
      and r: "is_reset_call (engine_after (fst (evaluate_args e a)) mid1) r"
        "current_state (fst (evaluate_args (engine_after (fst (evaluate_args e a)) mid1) r)) = None"
        "snd (evaluate_args (engine_after (fst (evaluate_args e a)) mid1) r) = None"
      using Cons.IH by blast
    from m r have
      "a # as = (a # mid1) @ r # mid2 \<and> is_reset_call (engine_after e (a # mid1)) r \<and>
       current_state (fst (evaluate_args (engine_after e (a # mid1)) r)) = None \<and>
       snd (evaluate_args (engine_after e (a # mid1)) r) = None"
      by simp
    then show ?thesis by blast
  qed
qed

lemma engine_after_append:
  "engine_after e (xs @ ys) = engine_after (engine_after e xs) ys"
  by (induction xs arbitrary: e) simp_all

lemma engine_after_params:
  "threshold (engine_after e xs) = threshold e \<and>
   reset_threshold (engine_after e xs) = reset_threshold e \<and>
   min_correlation (engine_after e xs) = min_correlation e"
  by (induction xs arbitrary: e) (simp_all add: evaluate_args_def evaluate_params)

text \<open>
  Claim C1. In any run of \<open>evaluate\<close> calls on one engine, between two calls that return
  an alert there is a call made while the engine holds a signal, with
  \<open>|z| < reset_threshold\<close>, that sets the state back to \<open>None\<close> and itself returns no
  alert.
\<close>

theorem alerts_separated_by_reset:
  assumes "snd (evaluate_args (engine_after e pre) a) \<noteq> None"
    and "snd (evaluate_args (engine_after e (pre @ a # mid)) b) \<noteq> None"
  shows "\<exists>mid1 r mid2 z. mid = mid1 @ r # mid2 \<and>
           current_state (engine_after e (pre @ a # mid1)) \<noteq> None \<and>
           arg_z r = Some z \<and> fl_lt (fl_abs z) (reset_threshold e) \<and>
           current_state (fst (evaluate_args (engine_after e (pre @ a # mid1)) r)) = None \<and>
           snd (evaluate_args (engine_after e (pre @ a # mid1)) r) = None"
proof -
  define e1 where "e1 = fst (evaluate_args (engine_after e pre) a)"
  have step: "engine_after e (pre @ a # xs) = engine_after e1 xs" for xs
    by (simp add: engine_after_append e1_def)
  have "current_state e1 \<noteq> None"
    using assms(1) unfolding e1_def evaluate_args_def by (rule evaluate_alert_enters)
  moreover have "current_state (engine_after e1 mid) = None"
    using assms(2) unfolding step evaluate_args_def by (rule evaluate_alert_needs_idle)
  ultimately obtain mid1 r mid2 where m: "mid = mid1 @ r # mid2"
    and r: "is_reset_call (engine_after e1 mid1) r"
      "current_state (fst (evaluate_args (engine_after e1 mid1) r)) = None"
      "snd (evaluate_args (engine_after e1 mid1) r) = None"
    using reset_between by blast
  have "reset_threshold (engine_after e1 mid1) = reset_threshold e"
    using engine_after_params [of e "pre @ a # mid1"] by (simp add: step)
  with r(1) obtain z where "arg_z r = Some z" "fl_lt (fl_abs z) (reset_threshold e)"
    "current_state (engine_after e1 mid1) \<noteq> None"
    by (auto simp: is_reset_call_def split: option.splits)
  with m r(2,3) show ?thesis by (auto simp: step)
qed

lemma evaluate_undefined_input:
  "z = None \<or> c = None \<or> adf = None \<Longrightarrow> evaluate e z c adf ts = (e, None)"
  by (auto simp: evaluate_def split: option.splits)

text \<open>
  Claim C10, amended. In state \<open>None\<close> with z-score and correlation given, a
  stationarity dictionary without the key \<open>'is_stationary'\<close>, or with a value there
  that is false in Python's sense (\<open>False\<close>, \<open>None\<close>, zero, the empty string), gives no
  transition and no alert, for every z-score and correlation.
\<close>

theorem missing_or_false_stationarity_blocks:
  assumes "current_state e = None"
    and "adf ''is_stationary'' = None \<or> (\<exists>v. adf ''is_stationary'' = Some v \<and> \<not> truthy v)"
  shows "evaluate e (Some z) (Some c) (Some adf) ts = (e, None)"
  using assms by (auto simp: evaluate_def dict_get_def)

lemmas test_defs = test_engine_def init_engine_def adf_stationary_def adf_non_stationary_def
  test_call_def evaluate_args_def evaluate_def dict_get_def fl_ge_def fl_le_def fl_gt_def

theorem alerts_separated_by_reset_witness:
  "snd (evaluate_args (engine_after test_engine []) (test_call (5/2) (9/10) adf_stationary))
     \<noteq> None \<and>
   snd (evaluate_args
         (engine_after test_engine
           ([] @ test_call (5/2) (9/10) adf_stationary #
              [test_call (13/5) (9/10) adf_stationary, test_call (1/10) (9/10) adf_stationary]))
         (test_call (- (5/2)) (9/10) adf_stationary)) \<noteq> None \<and>
   (\<exists>mid1 r mid2 z.
      [test_call (13/5) (9/10) adf_stationary, test_call (1/10) (9/10) adf_stationary]
        = mid1 @ r # mid2 \<and>
      current_state
        (engine_after test_engine ([] @ test_call (5/2) (9/10) adf_stationary # mid1)) \<noteq> None \<and>
      arg_z r = Some z \<and> fl_lt (fl_abs z) (reset_threshold test_engine) \<and>
      current_state
        (fst (evaluate_args
               (engine_after test_engine ([] @ test_call (5/2) (9/10) adf_stationary # mid1)) r))
        = None \<and>
      snd (evaluate_args
            (engine_after test_engine ([] @ test_call (5/2) (9/10) adf_stationary # mid1)) r)
        = None)"
proof -
  have h1: "snd (evaluate_args (engine_after test_engine [])
                  (test_call (5/2) (9/10) adf_stationary)) \<noteq> None"
    by (simp add: test_defs)
  have h2: "snd (evaluate_args
         (engine_after test_engine
           ([] @ test_call (5/2) (9/10) adf_stationary #
              [test_call (13/5) (9/10) adf_stationary, test_call (1/10) (9/10) adf_stationary]))
         (test_call (- (5/2)) (9/10) adf_stationary)) \<noteq> None"
    by (simp add: test_defs)
  from alerts_separated_by_reset [OF h1 h2] h1 h2 show ?thesis by blast
qed

lemma not_lt_is_ge: "c \<noteq> NaN \<Longrightarrow> m \<noteq> NaN \<Longrightarrow> (\<not> fl_lt c m) = fl_ge c m"
  by (cases c; cases m) (auto simp: fl_ge_def fl_le_def)

lemma le_neg_excludes_ge: "fl_lt (Fin 0) t \<Longrightarrow> fl_le z (fl_neg t) \<Longrightarrow> \<not> fl_ge z t"
  by (cases t; cases z) (auto simp: fl_ge_def fl_le_def)

lemma stationary_read:
  "truthy (dict_get adf ''is_stationary'' (PyBool False)) =
     (\<exists>v. adf ''is_stationary'' = Some v \<and> truthy v)"
  by (cases "adf ''is_stationary''") (simp_all add: dict_get_def)

text \<open>
  Claim C2, as stated, fails in three ways. With the entry threshold 0 and \<open>z = 0\<close> the
  LONG condition \<open>z \<le> -threshold\<close> holds, and the engine goes SHORT, because the
  SHORT test comes first. A correlation of NaN is not below \<open>min_correlation\<close>, so the
  engine alerts although \<open>correlation \<ge> min_correlation\<close> is false. And a value under
  \<open>'is_stationary'\<close> that is not \<open>True\<close> but true in Python's sense, such as the
  string \<open>'yes'\<close>, passes the stationarity filter.
\<close>

theorem idle_trigger_exceptions:
  "fl_ge (Fin (9/10)) (min_correlation (init_engine (Fin 0) (Fin (1/2)) (Fin (7/10)))) \<and>
   fl_le (Fin 0) (fl_neg (threshold (init_engine (Fin 0) (Fin (1/2)) (Fin (7/10))))) \<and>
   evaluate (init_engine (Fin 0) (Fin (1/2)) (Fin (7/10)))
       (Some (Fin 0)) (Some (Fin (9/10))) (Some adf_stationary) ''t''
     = ((init_engine (Fin 0) (Fin (1/2)) (Fin (7/10)))\<lparr>current_state := Some SHORT\<rparr>,
        Some \<lparr>timestamp = ''t'', signal = SHORT, z_score = Fin 0, correlation = Fin (9/10),
              reason = Overbought (Fin 0) (Fin 0)\<rparr>) \<and>
   \<not> fl_ge NaN (min_correlation test_engine) \<and>
   evaluate test_engine (Some (Fin (5/2))) (Some NaN) (Some adf_stationary) ''t''
     = (test_engine\<lparr>current_state := Some SHORT\<rparr>,
        Some \<lparr>timestamp = ''t'', signal = SHORT, z_score = Fin (5/2), correlation = NaN,
              reason = Overbought (Fin (5/2)) (Fin 2)\<rparr>) \<and>
   PyStr ''yes'' \<noteq> PyBool True \<and>
   evaluate test_engine (Some (Fin (5/2))) (Some (Fin (9/10)))
       (Some [''is_stationary'' \<mapsto> PyStr ''yes'']) ''t''
     = (test_engine\<lparr>current_state := Some SHORT\<rparr>,
        Some \<lparr>timestamp = ''t'', signal = SHORT, z_score = Fin (5/2),
              correlation = Fin (9/10), reason = Overbought (Fin (5/2)) (Fin 2)\<rparr>)"
  by (simp add: test_defs)

text \<open>
  Claim C2, amended. In state \<open>None\<close> with all three inputs given, the correlation and
  \<open>min_correlation\<close> numbers (not NaN) and the entry threshold positive, \<open>evaluate\<close>
  moves to \<open>SHORT\<close> and returns a SHORT alert exactly when
  \<open>correlation \<ge> min_correlation\<close>, the dictionary holds a value under
  \<open>'is_stationary'\<close> that is true in Python's sense, and \<open>z \<ge> threshold\<close>; it moves
  to \<open>LONG\<close> and returns a LONG alert exactly when \<open>correlation \<ge> min_correlation\<close>,
  the dictionary holds such a value, and \<open>z \<le> -threshold\<close>; in every other case, and
  whenever \<open>correlation < min_correlation\<close>, the engine is unchanged and nothing is
  returned.
\<close>

theorem idle_engine_triggers_exactly:
  assumes "current_state e = None" and "c \<noteq> NaN" and "min_correlation e \<noteq> NaN"
    and "fl_lt (Fin 0) (threshold e)"
  shows "((evaluate e (Some z) (Some c) (Some adf) ts =
            (e\<lparr>current_state := Some SHORT\<rparr>,
             Some \<lparr>timestamp = ts, signal = SHORT, z_score = z, correlation = c,
                   reason = Overbought z (threshold e)\<rparr>))
          = (fl_ge c (min_correlation e) \<and>
             (\<exists>v. adf ''is_stationary'' = Some v \<and> truthy v) \<and> fl_ge z (threshold e))) \<and>
         ((evaluate e (Some z) (Some c) (Some adf) ts =
            (e\<lparr>current_state := Some LONG\<rparr>,
             Some \<lparr>timestamp = ts, signal = LONG, z_score = z, correlation = c,
                   reason = Oversold z (threshold e)\<rparr>))
          = (fl_ge c (min_correlation e) \<and>
             (\<exists>v. adf ''is_stationary'' = Some v \<and> truthy v) \<and>
             fl_le z (fl_neg (threshold e)))) \<and>
         (\<not> (fl_ge c (min_correlation e) \<and>
             (\<exists>v. adf ''is_stationary'' = Some v \<and> truthy v) \<and> fl_ge z (threshold e)) \<and>
          \<not> (fl_ge c (min_correlation e) \<and>
             (\<exists>v. adf ''is_stationary'' = Some v \<and> truthy v) \<and>
             fl_le z (fl_neg (threshold e)))
          \<longrightarrow> evaluate e (Some z) (Some c) (Some adf) ts = (e, None)) \<and>
         (fl_lt c (min_correlation e)
          \<longrightarrow> evaluate e (Some z) (Some c) (Some adf) ts = (e, None))"
proof -
  note ge = not_lt_is_ge [OF assms(2,3)]
  note ex = le_neg_excludes_ge [OF assms(4), of z]
  note st = stationary_read [of adf, symmetric]
  have short: "(evaluate e (Some z) (Some c) (Some adf) ts =
            (e\<lparr>current_state := Some SHORT\<rparr>,
             Some \<lparr>timestamp = ts, signal = SHORT, z_score = z, correlation = c,
                   reason = Overbought z (threshold e)\<rparr>))
          = (fl_ge c (min_correlation e) \<and>
             (\<exists>v. adf ''is_stationary'' = Some v \<and> truthy v) \<and> fl_ge z (threshold e))"
    unfolding st using assms(1) ge ex by (auto simp: evaluate_def)
  have long: "(evaluate e (Some z) (Some c) (Some adf) ts =
            (e\<lparr>current_state := Some LONG\<rparr>,
             Some \<lparr>timestamp = ts, signal = LONG, z_score = z, correlation = c,
                   reason = Oversold z (threshold e)\<rparr>))
          = (fl_ge c (min_correlation e) \<and>
             (\<exists>v. adf ''is_stationary'' = Some v \<and> truthy v) \<and>
             fl_le z (fl_neg (threshold e)))"
    unfolding st using assms(1) ge ex by (auto simp: evaluate_def)
  have other: "\<not> (fl_ge c (min_correlation e) \<and>
             (\<exists>v. adf ''is_stationary'' = Some v \<and> truthy v) \<and> fl_ge z (threshold e)) \<and>
          \<not> (fl_ge c (min_correlation e) \<and>
             (\<exists>v. adf ''is_stationary'' = Some v \<and> truthy v) \<and>
             fl_le z (fl_neg (threshold e)))
          \<longrightarrow> evaluate e (Some z) (Some c) (Some adf) ts = (e, None)"
    unfolding st using assms(1) ge ex by (auto simp: evaluate_def)
  have low: "fl_lt c (min_correlation e)
          \<longrightarrow> evaluate e (Some z) (Some c) (Some adf) ts = (e, None)"
    using assms(1) by (auto simp: evaluate_def)
  from short long other low show ?thesis by blast
qed

theorem idle_engine_triggers_exactly_witness:
  "current_state test_engine = None \<and> Fin (9/10) \<noteq> NaN \<and> Fin (2/5) \<noteq> NaN \<and>
   min_correlation test_engine \<noteq> NaN \<and> fl_lt (Fin 0) (threshold test_engine) \<and>
   evaluate test_engine (Some (Fin (5/2))) (Some (Fin (9/10))) (Some adf_stationary) ''t''
     = (test_engine\<lparr>current_state := Some SHORT\<rparr>,
        Some \<lparr>timestamp = ''t'', signal = SHORT, z_score = Fin (5/2),
              correlation = Fin (9/10),
              reason = Overbought (Fin (5/2)) (threshold test_engine)\<rparr>) \<and>
   evaluate test_engine (Some (Fin (- (5/2)))) (Some (Fin (9/10))) (Some adf_stationary) ''t''
     = (test_engine\<lparr>current_state := Some LONG\<rparr>,
        Some \<lparr>timestamp = ''t'', signal = LONG, z_score = Fin (- (5/2)),
              correlation = Fin (9/10),
              reason = Oversold (Fin (- (5/2))) (threshold test_engine)\<rparr>) \<and>
   evaluate test_engine (Some (Fin 1)) (Some (Fin (9/10))) (Some adf_stationary) ''t''
     = (test_engine, None) \<and>
   evaluate test_engine (Some (Fin (5/2))) (Some (Fin (9/10))) (Some adf_non_stationary) ''t''
     = (test_engine, None) \<and>
   fl_lt (Fin (2/5)) (min_correlation test_engine) \<and>
   evaluate test_engine (Some (Fin (5/2))) (Some (Fin (2/5))) (Some adf_stationary) ''t''
     = (test_engine, None)"
proof -
  have h: "current_state test_engine = None" "Fin (9/10) \<noteq> NaN"
    "min_correlation test_engine \<noteq> NaN" "fl_lt (Fin 0) (threshold test_engine)"
    by (simp_all add: test_defs)
  have h': "current_state test_engine = None" "Fin (2/5) \<noteq> NaN"
    "min_correlation test_engine \<noteq> NaN" "fl_lt (Fin 0) (threshold test_engine)"
    by (simp_all add: test_defs)
  have corr: "fl_ge (Fin (9/10)) (min_correlation test_engine)"
    by (simp add: test_defs)
  have stat: "\<exists>v. adf_stationary ''is_stationary'' = Some v \<and> truthy v"
    by (simp add: adf_stationary_def)
  have nstat: "\<not> (\<exists>v. adf_non_stationary ''is_stationary'' = Some v \<and> truthy v)"
    by (simp add: adf_non_stationary_def)
  have up: "fl_ge (Fin (5/2)) (threshold test_engine)"
    and down: "fl_le (Fin (- (5/2))) (fl_neg (threshold test_engine))"
    and mid: "\<not> fl_ge (Fin 1) (threshold test_engine)"
      "\<not> fl_le (Fin 1) (fl_neg (threshold test_engine))"
    and low: "fl_lt (Fin (2/5)) (min_correlation test_engine)"
    by (simp_all add: test_defs)
  from idle_engine_triggers_exactly [OF h, of "Fin (5/2)" adf_stationary "''t''"] corr stat up
  have 1: "evaluate test_engine (Some (Fin (5/2))) (Some (Fin (9/10))) (Some adf_stationary) ''t''
     = (test_engine\<lparr>current_state := Some SHORT\<rparr>,
        Some \<lparr>timestamp = ''t'', signal = SHORT, z_score = Fin (5/2),
              correlation = Fin (9/10),
              reason = Overbought (Fin (5/2)) (threshold test_engine)\<rparr>)"
    by blast
  from idle_engine_triggers_exactly [OF h, of "Fin (- (5/2))" adf_stationary "''t''"]
    corr stat down
  have 2: "evaluate test_engine (Some (Fin (- (5/2)))) (Some (Fin (9/10)))
       (Some adf_stationary) ''t''
     = (test_engine\<lparr>current_state := Some LONG\<rparr>,
        Some \<lparr>timestamp = ''t'', signal = LONG, z_score = Fin (- (5/2)),
              correlation = Fin (9/10),
              reason = Oversold (Fin (- (5/2))) (threshold test_engine)\<rparr>)"
    by blast
  from idle_engine_triggers_exactly [OF h, of "Fin 1" adf_stationary "''t''"] mid
  have 3: "evaluate test_engine (Some (Fin 1)) (Some (Fin (9/10))) (Some adf_stationary) ''t''
     = (test_engine, None)"
    by blast
  from idle_engine_triggers_exactly [OF h, of "Fin (5/2)" adf_non_stationary "''t''"] nstat
  have 4: "evaluate test_engine (Some (Fin (5/2))) (Some (Fin (9/10)))
       (Some adf_non_stationary) ''t'' = (test_engine, None)"
    by blast
  from idle_engine_triggers_exactly [OF h', of "Fin (5/2)" adf_stationary "''t''"] low
  have 5: "evaluate test_engine (Some (Fin (5/2))) (Some (Fin (2/5))) (Some adf_stationary) ''t''
     = (test_engine, None)"
    by blast
  from h h'(2) 1 2 3 4 5 low show ?thesis by blast
qed

text \<open>
  Claim C10, as stated, fails for a value that is not \<open>True\<close> but true in Python's
  sense: with \<open>{'is_stationary': 'no'}\<close> the engine takes the series as stationary and
  returns a SHORT alert.
\<close>

theorem truthy_string_passes_stationarity:
  "[''is_stationary'' \<mapsto> PyStr ''no''] ''is_stationary'' = Some (PyStr ''no'') \<and>
   PyStr ''no'' \<noteq> PyBool True \<and>
   current_state test_engine = None \<and>
   evaluate test_engine (Some (Fin (5/2))) (Some (Fin (9/10)))
       (Some [''is_stationary'' \<mapsto> PyStr ''no'']) ''2025-01-01T10:00:00''
     = (test_engine\<lparr>current_state := Some SHORT\<rparr>,
        Some \<lparr>timestamp = ''2025-01-01T10:00:00'', signal = SHORT, z_score = Fin (5/2),
              correlation = Fin (9/10), reason = Overbought (Fin (5/2)) (Fin 2)\<rparr>)"
  by (simp add: test_defs)

theorem missing_or_false_stationarity_blocks_witness:
  "current_state test_engine = None \<and>
   (Map.empty ''is_stationary'' = None \<or>
    (\<exists>v. Map.empty ''is_stationary'' = Some v \<and> \<not> truthy v)) \<and>
   evaluate test_engine (Some (Fin (5/2))) (Some (Fin (9/10))) (Some Map.empty) ''t''
     = (test_engine, None) \<and>
   (adf_non_stationary ''is_stationary'' = None \<or>
    (\<exists>v. adf_non_stationary ''is_stationary'' = Some v \<and> \<not> truthy v)) \<and>
   evaluate test_engine (Some (Fin (5/2))) (Some (Fin (9/10))) (Some adf_non_stationary) ''t''
     = (test_engine, None) \<and>
   ([''is_stationary'' \<mapsto> PyInt 0] ''is_stationary'' = None \<or>
    (\<exists>v. [''is_stationary'' \<mapsto> PyInt 0] ''is_stationary'' = Some v \<and> \<not> truthy v)) \<and>
   evaluate test_engine (Some (Fin (5/2))) (Some (Fin (9/10)))
       (Some [''is_stationary'' \<mapsto> PyInt 0]) ''t''
     = (test_engine, None)"
proof -
  have h1: "current_state test_engine = None" by (simp add: test_defs)
  have h2: "Map.empty ''is_stationary'' = None \<or>
    (\<exists>v. (Map.empty :: pydict) ''is_stationary'' = Some v \<and> \<not> truthy v)" by simp
  have h3: "adf_non_stationary ''is_stationary'' = None \<or>
    (\<exists>v. adf_non_stationary ''is_stationary'' = Some v \<and> \<not> truthy v)"
    by (simp add: adf_non_stationary_def)
  have h4: "[''is_stationary'' \<mapsto> PyInt 0] ''is_stationary'' = None \<or>
    (\<exists>v. [''is_stationary'' \<mapsto> PyInt 0] ''is_stationary'' = Some v \<and> \<not> truthy v)"
    by simp
  from missing_or_false_stationarity_blocks [of test_engine Map.empty, OF h1 h2]
       missing_or_false_stationarity_blocks [of test_engine adf_non_stationary, OF h1 h3]
       missing_or_false_stationarity_blocks
         [of test_engine "[''is_stationary'' \<mapsto> PyInt 0]", OF h1 h4]
       h1 h2 h3 h4
  show ?thesis by blast
qed

section \<open>Properties of the two z-score paths and of the live alert check\<close>

lemmas ws_defs = process_message_def update_analytics_def deque_append_def WINDOW_SIZE_def
  HEDGE_RATIO_def initial_ws_state_def py_tail_def update_alerts_def default_config_def
  initial_latest_alert_def fl_gt_def Let_def

lemma warmup_mean: "np_mean [- 3, - 1, 0, 1, 3] = 0"
  by (simp add: np_mean_def)

lemma warmup_np_std: "np_std [- 3, - 1, 0, 1, 3] = 2"
  by (simp add: np_std_def var_ddof_def warmup_mean)

lemma warmup_sample_std: "sample_std [- 3, - 1, 0, 1, 3] = sqrt 5"
  by (simp add: sample_std_def var_ddof_def warmup_mean)

lemma warmup_run:
  "spread_history (process_messages default_config warmup_messages (initial_ws_state ''t0'' []))
     = [- 3, - 1, 0, 1, 3] \<and>
   map dp_zscore
     (history_data (process_messages default_config warmup_messages (initial_ws_state ''t0'' [])))
     = [Fin (3/2)]"
  by (simp add: warmup_messages_def ws_defs warmup_mean warmup_np_std)

lemma warmup_compute_zscore:
  "compute_zscore [- 3, - 1, 0, 1, 3] 5 = Inr [NaN, NaN, NaN, NaN, Fin (3 / sqrt 5)]"
  by (simp add: compute_zscore_def rolling_def window_at_def upt_rec replace_inf_def fl_sub_def
      warmup_mean warmup_sample_std)

lemma sqrt5_not_2: "sqrt 5 \<noteq> 2"
proof
  assume "sqrt 5 = 2"
  then have "sqrt 5 = sqrt 4" by simp
  then show False by (simp only: real_sqrt_eq_iff)
qed

lemma flat_stds:
  "np_std [0, 0, 0, 0, 0] = 0" "np_std [0, 0, 0, 0, 0, 0] = 0" "np_std [0, 0, 0, 0, 0, 0, 0] = 0"
  "np_std [0, 0, 0, 0, 0, 0, 0, 0] = 0" "np_std [0, 0, 0, 0, 0, 0, 0, 0, 0] = 0"
  by (simp_all add: np_std_def var_ddof_def np_mean_def)

lemma sqrt9: "sqrt 9 = 3"
  by (rule real_sqrt_unique) simp_all

lemma spike_mean: "np_mean [0, 0, 0, 0, 0, 0, 0, 0, 0, 10] = 1"
  by (simp add: np_mean_def)

lemma spike_np_std: "np_std [0, 0, 0, 0, 0, 0, 0, 0, 0, 10] = 3"
  by (simp add: np_std_def var_ddof_def spike_mean sqrt9)



lemma replace_inf_div_fin:
  "replace_inf (fl_div (Fin a) (Fin b)) = (if b = 0 then NaN else Fin (a / b))"
  by (simp add: replace_inf_def)





text \<open>
  Claim C3, as stated, fails on the live check: after the messages of
  \<open>spike_messages\<close> the correlation is undefined (fewer than twenty prices), and
  \<open>update_alerts\<close> still records a SHORT alert for the z-score 3.
\<close>

theorem alert_recorded_without_correlation:
  "map dp_correlation
     (history_data (process_messages default_config spike_messages (initial_ws_state ''t0'' [])))
     = [None, None, None, None, None, None] \<and>
   shared_alert (process_messages default_config spike_messages (initial_ws_state ''t0'' []))
     = \<lparr>la_timestamp = ''t4'', la_type = ''SIGNAL'', la_signal = ''SHORT'',
        la_z_score = Fin 3, la_reason = Crossed ''SHORT'' (Fin 3) None\<rparr> \<and>
   shared_alert (process_messages default_config spike_messages (initial_ws_state ''t0'' []))
     \<noteq> shared_alert (initial_ws_state ''t0'' [])"
  by (simp add: spike_messages_def ws_defs flat_stds spike_np_std spike_mean numeral_eq_Suc)

text \<open>
  Claim C3, amended. \<open>evaluate\<close> with \<open>None\<close> for the z-score, the correlation or the
  stationarity result leaves the engine as it is and returns no alert, in every state.
  \<open>update_alerts\<close> takes a correlation of \<open>None\<close> as passing its filter: it records a
  SHORT alert when \<open>z > threshold\<close>, a LONG alert when \<open>z < -threshold\<close>, and leaves
  \<open>latest_alert\<close> alone otherwise.
\<close>

theorem undefined_inputs_engine_and_live_check:
  "(z = None \<or> c = None \<or> adf = None \<longrightarrow> evaluate e z c adf ts = (e, None)) \<and>
   (dp_correlation d = None \<longrightarrow>
      update_alerts cfg d la =
        (if fl_gt (dp_zscore d) (zscore_entry_threshold cfg) then
           la\<lparr>la_timestamp := dp_timestamp d, la_type := ''SIGNAL'', la_signal := ''SHORT'',
              la_z_score := dp_zscore d, la_reason := Crossed ''SHORT'' (dp_zscore d) None\<rparr>
         else if fl_lt (dp_zscore d) (fl_neg (zscore_entry_threshold cfg)) then
           la\<lparr>la_timestamp := dp_timestamp d, la_type := ''SIGNAL'', la_signal := ''LONG'',
              la_z_score := dp_zscore d, la_reason := Crossed ''LONG'' (dp_zscore d) None\<rparr>
         else la))"
  by (simp add: evaluate_undefined_input update_alerts_def Let_def)

theorem undefined_inputs_engine_and_live_check_witness:
  "evaluate test_engine None (Some (Fin (9/10))) (Some adf_stationary) ''t'' = (test_engine, None) \<and>
   update_alerts default_config
     \<lparr>dp_timestamp = ''t1'', dp_zscore = Fin (5/2), dp_spread = Fin 0, dp_correlation = None,
      dp_hedge_ratio = Fin 25\<rparr> (initial_latest_alert ''t0'')
     = \<lparr>la_timestamp = ''t1'', la_type = ''SIGNAL'', la_signal = ''SHORT'',
        la_z_score = Fin (5/2), la_reason = Crossed ''SHORT'' (Fin (5/2)) None\<rparr>"
  using undefined_inputs_engine_and_live_check
    [of None "Some (Fin (9/10))" "Some adf_stationary" test_engine "''t''"
        "\<lparr>dp_timestamp = ''t1'', dp_zscore = Fin (5/2), dp_spread = Fin 0,
          dp_correlation = None, dp_hedge_ratio = Fin 25\<rparr>"
        default_config "initial_latest_alert ''t0''"]
  by (simp add: default_config_def fl_gt_def initial_latest_alert_def)

text \<open>
  Claim C4 on the two z-score paths, at the spread window -3, -1, 0, 1, 3:
  \<open>update_analytics\<close> divides by numpy's population standard deviation (denominator
  \<open>N\<close>) and publishes 3/2, where \<open>compute_zscore\<close> divides by the sample standard
  deviation (denominator \<open>N - 1\<close>) and gives \<open>3 / sqrt 5\<close>.
\<close>

theorem live_zscore_uses_population_std:
  "spread_history (process_messages default_config warmup_messages (initial_ws_state ''t0'' []))
     = [- 3, - 1, 0, 1, 3] \<and>
   map dp_zscore
     (history_data (process_messages default_config warmup_messages (initial_ws_state ''t0'' [])))
     = [Fin ((3 - np_mean [- 3, - 1, 0, 1, 3]) / sqrt (var_ddof 0 [- 3, - 1, 0, 1, 3]))] \<and>
   compute_zscore [- 3, - 1, 0, 1, 3] 5
     = Inr [NaN, NaN, NaN, NaN,
            Fin ((3 - np_mean [- 3, - 1, 0, 1, 3]) / sqrt (var_ddof 1 [- 3, - 1, 0, 1, 3]))] \<and>
   (3 - np_mean [- 3, - 1, 0, 1, 3]) / sqrt (var_ddof 0 [- 3, - 1, 0, 1, 3]) = 3 / 2 \<and>
   (3 - np_mean [- 3, - 1, 0, 1, 3]) / sqrt (var_ddof 1 [- 3, - 1, 0, 1, 3]) = 3 / sqrt 5 \<and>
   (3::real) / 2 \<noteq> 3 / sqrt 5"
  using warmup_run warmup_compute_zscore warmup_np_std warmup_sample_std sqrt5_not_2
  by (simp add: warmup_mean np_std_def sample_std_def)










section \<open>Properties of the hedge ratio and the spread\<close>

text \<open>
  Claim C7, as stated, fails: on series of unequal lengths both functions raise
  \<open>ValueError\<close> instead of returning an undefined result, and \<open>compute_spread\<close>
  checks neither the length nor finiteness: it returns a spread for series of length
  one and for series with an infinite value.
\<close>

theorem unequal_lengths_raise:
  "compute_hedge_ratio failing_polyfit [Fin 1, Fin 2, Fin 3] [Fin 1, Fin 2] = Inl ValueError \<and>
   compute_spread [Fin 1, Fin 2, Fin 3] [Fin 1, Fin 2] (Some (Fin 2)) = Inl ValueError \<and>
   compute_spread [Fin 1] [Fin 3] (Some (Fin 2)) = Inr [Fin 1] \<and>
   compute_spread [Fin 1, PInf] [Fin 3, Fin 0] (Some (Fin 2)) = Inr [Fin 1, NInf]"
  by (simp add: compute_hedge_ratio_def compute_spread_def fl_sub_def)

text \<open>
  Claim C7, amended. \<open>compute_hedge_ratio\<close> raises \<open>ValueError\<close> on series of unequal
  lengths and returns \<open>None\<close> on series of equal length that are shorter than two or
  hold a value that is not finite. \<open>compute_spread\<close> raises \<open>ValueError\<close> when the
  hedge ratio is \<open>None\<close> or the lengths are unequal, and otherwise returns
  \<open>y - hedge_ratio * x\<close> element by element, whatever the length and the values.
\<close>

theorem hedge_ratio_and_spread_preconditions:
  "(length x \<noteq> length y \<longrightarrow>
      compute_hedge_ratio np_polyfit x y = Inl ValueError \<and>
      compute_spread x y h = Inl ValueError) \<and>
   (length x = length y \<and>
    (length x < 2 \<or> \<not> list_all is_finite x \<or> \<not> list_all is_finite y) \<longrightarrow>
      compute_hedge_ratio np_polyfit x y = Inr None) \<and>
   compute_spread x y None = Inl ValueError \<and>
   (length x = length y \<longrightarrow>
      compute_spread x y (Some b) = Inr (map (\<lambda>(xi, yi). fl_sub yi (fl_mul b xi)) (zip x y)))"
  by (auto simp: compute_hedge_ratio_def compute_spread_def split: option.splits)

theorem hedge_ratio_and_spread_preconditions_witness:
  "compute_hedge_ratio failing_polyfit [Fin 1, Fin 2, Fin 3] [Fin 1, Fin 2] = Inl ValueError \<and>
   compute_hedge_ratio failing_polyfit [Fin 1, NaN] [Fin 1, Fin 2] = Inr None \<and>
   compute_spread [Fin 1, Fin 2] [Fin 3, Fin 5] (Some (Fin 2)) = Inr [Fin 1, Fin 1]"
proof -
  have a: "length [Fin 1, Fin 2, Fin 3] \<noteq> length [Fin 1, Fin 2]" by simp
  have b: "length [Fin 1, NaN] = length [Fin 1, Fin 2] \<and>
    (length [Fin 1, NaN] < 2 \<or> \<not> list_all is_finite [Fin 1, NaN] \<or>
     \<not> list_all is_finite [Fin 1, Fin 2])" by simp
  have c: "length [Fin 1, Fin 2] = length [Fin 3, Fin 5]" by simp
  from hedge_ratio_and_spread_preconditions
         [of "[Fin 1, Fin 2, Fin 3]" "[Fin 1, Fin 2]" failing_polyfit "Some (Fin 2)" "Fin 2"] a
  have 1: "compute_hedge_ratio failing_polyfit [Fin 1, Fin 2, Fin 3] [Fin 1, Fin 2]
             = Inl ValueError" by blast
  from hedge_ratio_and_spread_preconditions
         [of "[Fin 1, NaN]" "[Fin 1, Fin 2]" failing_polyfit "Some (Fin 2)" "Fin 2"] b
  have 2: "compute_hedge_ratio failing_polyfit [Fin 1, NaN] [Fin 1, Fin 2] = Inr None"
    by blast
  from hedge_ratio_and_spread_preconditions
         [of "[Fin 1, Fin 2]" "[Fin 3, Fin 5]" failing_polyfit "Some (Fin 2)" "Fin 2"] c
  have 3: "compute_spread [Fin 1, Fin 2] [Fin 3, Fin 5] (Some (Fin 2)) = Inr [Fin 1, Fin 1]"
    by (simp add: fl_sub_def)
  from 1 2 3 show ?thesis by blast
qed

section \<open>Properties of the bar sampler\<close>

lemmas sampler_defs = process_tick_def check_buffer_closures_def timeframe_step_def
  timeframes_def seconds_def get_period_start_def create_bar_def update_bar_def
  finalize_bar_def discarded_def new_sampler_def late_def Let_def

lemma bar_ok_create: "bar_ok tf (create_bar sy (get_period_start ts tf) tf p q)"
  by (simp add: bar_ok_def create_bar_def get_period_start_def)

lemma bar_ok_update: "bar_ok tf b \<Longrightarrow> bar_ok tf (update_bar b p q)"
  by (auto simp: bar_ok_def update_bar_def)

lemma trade_count_sum_snoc:
  "trade_count_sum sy tf (xs @ [(tf', b)]) =
     trade_count_sum sy tf xs + (if tf' = tf \<and> bar_symbol b = sy then bar_count b else 0)"
  by (simp add: trade_count_sum_def)

lemma finalize_bar_fields:
  "active_bars (finalize_bar tf b s) = active_bars s"
  "finalized (finalize_bar tf b s) = finalized s @ [(tf, b)]"
  "emitted (finalize_bar tf b s) = (if discarded b then emitted s else emitted s @ [(tf, b)])"
  by (simp_all add: finalize_bar_def)

lemma map_of_entry: "distinct (map fst al) \<Longrightarrow> (k, v) \<in> set al \<Longrightarrow> map_of al k = Some v"
  by simp

lemma set_delete: "set (AList.delete k al) = {p \<in> set al. fst p \<noteq> k}"
  by (auto simp: AList.delete_eq)

lemma set_update_subset: "set (AList.update k v al) \<subseteq> insert (k, v) (set al)"
  by (induction al) auto

lemma closure_step_inv:
  assumes "sampler_inv s" and "(key, b) \<in> set (active_bars s)"
  shows "sampler_inv ((finalize_bar (snd key) b s)\<lparr>active_bars := AList.delete key (active_bars s)\<rparr>)"
proof -
  from assms have ok: "bar_ok (snd key) b" by (auto simp: sampler_inv_def)
  from assms(1) have "distinct (map fst (AList.delete key (active_bars s)))"
    by (simp add: sampler_inv_def distinct_delete)
  moreover from assms(1) have
    "\<forall>(k, b) \<in> set (AList.delete key (active_bars s)). bar_symbol b = fst k \<and> bar_ok (snd k) b"
    by (auto simp: sampler_inv_def set_delete)
  moreover from assms(1) ok have
    "\<forall>(tf, b) \<in> set (finalized s @ [(snd key, b)]). bar_ok tf b"
    by (auto simp: sampler_inv_def)
  moreover from assms(1) have
    "(if discarded b then emitted s else emitted s @ [(snd key, b)])
       = filter (\<lambda>(tf, b). \<not> discarded b) (finalized s @ [(snd key, b)])"
    by (simp add: sampler_inv_def)
  ultimately show ?thesis
    by (simp add: sampler_inv_def finalize_bar_fields)
qed

lemma closure_step_total:
  assumes "sampler_inv s" and "(key, b) \<in> set (active_bars s)"
  shows "total_count sy tf ((finalize_bar (snd key) b s)\<lparr>active_bars := AList.delete key (active_bars s)\<rparr>)
           = total_count sy tf s"
proof -
  from assms have m: "map_of (active_bars s) key = Some b" and sb: "bar_symbol b = fst key"
    by (auto simp: sampler_inv_def)
  show ?thesis
  proof (cases "key = (sy, tf)")
    case True
    with m sb show ?thesis
      by (simp add: total_count_def open_count_def finalize_bar_fields trade_count_sum_snoc
          delete_conv)
  next
    case False
    with m sb show ?thesis
      by (cases key) (auto simp: total_count_def open_count_def finalize_bar_fields trade_count_sum_snoc
          delete_conv)
  qed
qed

lemma closures_loop_inv_total:
  assumes "sampler_inv s" and "distinct (map fst ents)" and "set ents \<subseteq> set (active_bars s)"
  shows "sampler_inv (closures_loop now ents s) \<and>
         total_count sy tf (closures_loop now ents s) = total_count sy tf s"
  using assms
proof (induction ents arbitrary: s)
  case Nil
  then show ?case by simp
next
  case (Cons e ents)
  obtain key b where e: "e = (key, b)" by (cases e)
  show ?case
  proof (cases "now > end_time b")
    case True
    let ?s = "(finalize_bar (snd key) b s)\<lparr>active_bars := AList.delete key (active_bars s)\<rparr>"
    from Cons.prems e have mem: "(key, b) \<in> set (active_bars s)" by simp
    have i: "sampler_inv ?s" using Cons.prems(1) mem by (rule closure_step_inv)
    have t: "total_count sy tf ?s = total_count sy tf s"
      using Cons.prems(1) mem by (rule closure_step_total)
    have d: "distinct (map fst ents)" using Cons.prems(2) by simp
    have sub: "set ents \<subseteq> set (active_bars ?s)"
      using Cons.prems(2,3) e by (force simp: set_delete finalize_bar_fields)
    from Cons.IH [OF i d sub] t True e show ?thesis by simp
  next
    case False
    have d: "distinct (map fst ents)" using Cons.prems(2) by simp
    have sub: "set ents \<subseteq> set (active_bars s)" using Cons.prems(3) by simp
    from Cons.IH [OF Cons.prems(1) d sub] False e show ?thesis by simp
  qed
qed

lemma check_buffer_closures_inv_total:
  assumes "sampler_inv s"
  shows "sampler_inv (check_buffer_closures now s) \<and>
         total_count sy tf (check_buffer_closures now s) = total_count sy tf s"
  unfolding check_buffer_closures_def
  using assms by (intro closures_loop_inv_total) (simp_all add: sampler_inv_def)

lemma set_update_distinct:
  "distinct (map fst al) \<Longrightarrow>
   set (AList.update k v al) = insert (k, v) {p \<in> set al. fst p \<noteq> k}"
  by (induction al) (auto simp: rev_image_eqI)

lemma put_bar_inv:
  assumes "sampler_inv s" and "bar_symbol b = sy" and "bar_ok tf b"
  shows "sampler_inv (s\<lparr>active_bars := AList.update (sy, tf) b (active_bars s)\<rparr>)"
proof -
  from assms(1) have d: "distinct (map fst (active_bars s))" by (simp add: sampler_inv_def)
  from assms d have
    "\<forall>(k, b) \<in> set (AList.update (sy, tf) b (active_bars s)).
        bar_symbol b = fst k \<and> bar_ok (snd k) b"
    by (auto simp: sampler_inv_def set_update_distinct)
  with assms(1) d show ?thesis
    by (simp add: sampler_inv_def distinct_update)
qed

lemma finalize_only_inv:
  assumes "sampler_inv s" and "bar_ok tf b"
  shows "sampler_inv (finalize_bar tf b s)"
  using assms by (auto simp: sampler_inv_def finalize_bar_fields)

lemma timeframe_step_inv:
  assumes "sampler_inv s"
  shows "sampler_inv (timeframe_step now t tf s)"
proof (cases "map_of (active_bars s) (tick_symbol t, tf)")
  case None
  have "sampler_inv (s\<lparr>active_bars := AList.update (tick_symbol t, tf)
              (create_bar (tick_symbol t) (get_period_start (tick_timestamp t) tf) tf
                 (tick_price t) (tick_quantity t)) (active_bars s)\<rparr>)"
    using assms by (intro put_bar_inv bar_ok_create) (simp_all add: create_bar_def)
  with assms None show ?thesis
    by (simp add: timeframe_step_def Let_def)
next
  case (Some cur)
  then have mem: "((tick_symbol t, tf), cur) \<in> set (active_bars s)" by (rule map_of_SomeD)
  with assms have cur: "bar_symbol cur = tick_symbol t" "bar_ok tf cur"
    by (auto simp: sampler_inv_def)
  have up: "sampler_inv (s\<lparr>active_bars := AList.update (tick_symbol t, tf)
              (update_bar cur (tick_price t) (tick_quantity t)) (active_bars s)\<rparr>)"
    using assms cur by (intro put_bar_inv bar_ok_update) (simp_all add: update_bar_def)
  have "sampler_inv (finalize_bar tf cur s)"
    using assms cur(2) by (rule finalize_only_inv)
  then have "sampler_inv ((finalize_bar tf cur s)\<lparr>active_bars := AList.update (tick_symbol t, tf)
              (create_bar (tick_symbol t) (get_period_start (tick_timestamp t) tf) tf
                 (tick_price t) (tick_quantity t)) (active_bars (finalize_bar tf cur s))\<rparr>)"
    by (intro put_bar_inv bar_ok_create) (simp_all add: create_bar_def)
  with up assms Some show ?thesis
    by (simp add: timeframe_step_def Let_def finalize_bar_fields)
qed

lemma timeframe_step_total:
  assumes "sampler_inv s"
  shows "total_count sy tf (timeframe_step now t tf' s) =
           total_count sy tf s +
             (if tick_symbol t = sy \<and> tf' = tf \<and> \<not> late now t tf then 1 else 0)"
proof (cases "late now t tf'")
  case True
  then show ?thesis by (auto simp: timeframe_step_def Let_def late_def)
next
  case nl: False
  then have nl': "\<not> get_period_start (tick_timestamp t) tf' + seconds tf' < now"
    by (simp add: late_def)
  show ?thesis
  proof (cases "map_of (active_bars s) (tick_symbol t, tf')")
    case None
    with nl nl' show ?thesis
      by (auto simp: timeframe_step_def Let_def total_count_def open_count_def
          update_conv' create_bar_def)
  next
    case (Some cur)
    then have "((tick_symbol t, tf'), cur) \<in> set (active_bars s)" by (rule map_of_SomeD)
    with assms have cur: "bar_symbol cur = tick_symbol t" by (auto simp: sampler_inv_def)
    with nl nl' Some show ?thesis
      by (auto simp: timeframe_step_def Let_def total_count_def open_count_def
          update_conv' create_bar_def update_bar_def finalize_bar_fields trade_count_sum_snoc)
  qed
qed

lemma fold_timeframes_inv_total:
  assumes "sampler_inv s"
  shows "sampler_inv (fold (timeframe_step now t) timeframes s) \<and>
         total_count sy tf (fold (timeframe_step now t) timeframes s) =
           total_count sy tf s +
             (if tick_symbol t = sy \<and> tf \<in> set timeframes \<and> \<not> late now t tf then 1 else 0)"
proof -
  let ?s1 = "timeframe_step now t 1 s"
  let ?s2 = "timeframe_step now t 60 ?s1"
  let ?s3 = "timeframe_step now t 300 ?s2"
  have i1: "sampler_inv ?s1" using assms by (rule timeframe_step_inv)
  have i2: "sampler_inv ?s2" using i1 by (rule timeframe_step_inv)
  have i3: "sampler_inv ?s3" using i2 by (rule timeframe_step_inv)
  have "total_count sy tf ?s3 =
           total_count sy tf s +
             (if tick_symbol t = sy \<and> tf \<in> {1, 60, 300} \<and> \<not> late now t tf then 1 else 0)"
    by (auto simp: timeframe_step_total [OF assms] timeframe_step_total [OF i1]
        timeframe_step_total [OF i2])
  with i3 show ?thesis by (simp add: timeframes_def)
qed

lemma process_tick_inv_total:
  assumes "sampler_inv s"
  shows "sampler_inv (process_tick now_sweep now t_opt s) \<and>
         total_count sy tf (process_tick now_sweep now t_opt s) =
           total_count sy tf s + admitted sy tf [(now_sweep, now, t_opt)]"
proof -
  note c = check_buffer_closures_inv_total [OF assms, of now_sweep sy tf]
  show ?thesis
  proof (cases t_opt)
    case None
    with c show ?thesis by (simp add: process_tick_def)
  next
    case (Some t)
    from c have i: "sampler_inv (check_buffer_closures now_sweep s)" by simp
    from fold_timeframes_inv_total [OF i, of now t sy tf] c Some
    show ?thesis by (simp add: process_tick_def)
  qed
qed

lemma admitted_append_one:
  "admitted sy tf (e # es) = admitted sy tf [e] + admitted sy tf es"
proof -
  obtain now_sweep now t_opt where "e = (now_sweep, now, t_opt)" by (cases e)
  then show ?thesis by (cases t_opt) simp_all
qed

lemma process_ticks_inv_total:
  assumes "sampler_inv s"
  shows "sampler_inv (process_ticks es s) \<and>
         total_count sy tf (process_ticks es s) = total_count sy tf s + admitted sy tf es"
  using assms
proof (induction es arbitrary: s)
  case Nil
  then show ?case by simp
next
  case (Cons e es)
  obtain now_sweep now t_opt where e: "e = (now_sweep, now, t_opt)" by (cases e)
  note p = process_tick_inv_total [OF Cons.prems, of now_sweep now t_opt sy tf]
  from p have i: "sampler_inv (process_tick now_sweep now t_opt s)" by simp
  from Cons.IH [OF i] p e show ?case
    by (simp add: admitted_append_one [of sy tf "(now_sweep, now, t_opt)" es])
qed

lemma new_sampler_inv: "sampler_inv new_sampler \<and> total_count sy tf new_sampler = 0"
  by (simp add: sampler_inv_def new_sampler_def total_count_def open_count_def trade_count_sum_def)

lemma trade_count_sum_split:
  "trade_count_sum sy tf bars =
     trade_count_sum sy tf (filter (\<lambda>(tf, b). \<not> discarded b) bars) +
     trade_count_sum sy tf (filter (\<lambda>(tf, b). discarded b) bars)"
  by (induction bars) (auto simp: trade_count_sum_def)


lemma closures_loop_no_discard:
  assumes "no_discard s" and "\<forall>(k, b) \<in> set ents. \<not> discarded b"
  shows "no_discard (closures_loop now ents s)"
  using assms
proof (induction ents arbitrary: s)
  case Nil
  then show ?case by simp
next
  case (Cons e ents)
  obtain key b where e: "e = (key, b)" by (cases e)
  from Cons.prems(2) e have nb: "\<not> discarded b" and rest: "\<forall>(k, b) \<in> set ents. \<not> discarded b"
    by auto
  have "no_discard ((finalize_bar (snd key) b s)\<lparr>active_bars := AList.delete key (active_bars s)\<rparr>)"
    using Cons.prems(1) nb by (auto simp: no_discard_def finalize_bar_fields set_delete)
  with Cons.IH [OF _ rest] Cons.prems(1) e show ?case by simp
qed

lemma put_bar_no_discard:
  assumes "no_discard s" and "\<not> discarded b"
  shows "no_discard (s\<lparr>active_bars := AList.update k b (active_bars s)\<rparr>)"
  using assms set_update_subset [of k b "active_bars s"]
  by (auto simp: no_discard_def)

lemma timeframe_step_no_discard:
  assumes "no_discard s" and "tick_price t > 0" and "tick_quantity t > 0"
  shows "no_discard (timeframe_step now t tf s)"
proof (cases "map_of (active_bars s) (tick_symbol t, tf)")
  case None
  have "no_discard (s\<lparr>active_bars := AList.update (tick_symbol t, tf)
              (create_bar (tick_symbol t) (get_period_start (tick_timestamp t) tf) tf
                 (tick_price t) (tick_quantity t)) (active_bars s)\<rparr>)"
    using assms by (intro put_bar_no_discard) (simp_all add: create_bar_def discarded_def)
  with assms(1) None show ?thesis by (simp add: timeframe_step_def Let_def)
next
  case (Some cur)
  then have "((tick_symbol t, tf), cur) \<in> set (active_bars s)" by (rule map_of_SomeD)
  with assms(1) have cur: "\<not> discarded cur" by (auto simp: no_discard_def)
  have up: "no_discard (s\<lparr>active_bars := AList.update (tick_symbol t, tf)
              (update_bar cur (tick_price t) (tick_quantity t)) (active_bars s)\<rparr>)"
    using assms cur
    by (intro put_bar_no_discard) (simp_all add: update_bar_def discarded_def)
  have "no_discard (finalize_bar tf cur s)"
    using assms(1) cur by (auto simp: no_discard_def finalize_bar_fields)
  then have "no_discard ((finalize_bar tf cur s)\<lparr>active_bars := AList.update (tick_symbol t, tf)
              (create_bar (tick_symbol t) (get_period_start (tick_timestamp t) tf) tf
                 (tick_price t) (tick_quantity t)) (active_bars (finalize_bar tf cur s))\<rparr>)"
    using assms(2,3) by (intro put_bar_no_discard) (simp_all add: create_bar_def discarded_def)
  with up assms(1) Some show ?thesis
    by (simp add: timeframe_step_def Let_def finalize_bar_fields)
qed

lemma process_tick_no_discard:
  assumes "no_discard s" and "positive_ticks [(now_sweep, now, t_opt)]"
  shows "no_discard (process_tick now_sweep now t_opt s)"
proof -
  have c: "no_discard (check_buffer_closures now_sweep s)"
    unfolding check_buffer_closures_def
    using assms(1) by (intro closures_loop_no_discard) (simp_all add: no_discard_def)
  show ?thesis
  proof (cases t_opt)
    case None
    with c show ?thesis by (simp add: process_tick_def)
  next
    case (Some t)
    with assms(2) have p: "tick_price t > 0" "tick_quantity t > 0"
      by (simp_all add: positive_ticks_def)
    from c p Some show ?thesis
      by (simp add: process_tick_def timeframes_def timeframe_step_no_discard)
  qed
qed

lemma process_ticks_no_discard:
  assumes "no_discard s" and "positive_ticks es"
  shows "no_discard (process_ticks es s)"
  using assms
proof (induction es arbitrary: s)
  case Nil
  then show ?case by simp
next
  case (Cons e es)
  obtain now_sweep now t_opt where e: "e = (now_sweep, now, t_opt)" by (cases e)
  from Cons.prems(2) e have p1: "positive_ticks [(now_sweep, now, t_opt)]"
    and p2: "positive_ticks es"
    by (simp_all add: positive_ticks_def)
  from Cons.IH [OF process_tick_no_discard [OF Cons.prems(1) p1] p2] e show ?case by simp
qed

lemma filter_discarded_empty:
  "\<forall>(tf, b) \<in> set bars. \<not> discarded b \<Longrightarrow> filter (\<lambda>(tf, b). discarded b) bars = []"
  by (induction bars) auto

text \<open>
  Claim C8, as stated, fails: a tick with quantity zero opens a bar of volume zero,
  which \<open>_finalize_bar\<close> discards. After \<open>zero_quantity_events\<close> the one-second bar
  of BTCUSDT has been finalized, one tick was admitted for it, and no bar was emitted.
\<close>

theorem discarded_bar_loses_its_ticks:
  "map_of (active_bars (process_ticks zero_quantity_events new_sampler)) (''BTCUSDT'', 1) = None \<and>
   admitted ''BTCUSDT'' 1 zero_quantity_events = 1 \<and>
   emitted (process_ticks zero_quantity_events new_sampler) = [] \<and>
   trade_count_sum ''BTCUSDT'' 1 (emitted (process_ticks zero_quantity_events new_sampler)) = 0"
  by (simp add: zero_quantity_events_def sampler_defs trade_count_sum_def)

text \<open>
  Claim C8, amended. For any sequence of ticks, and a symbol and timeframe whose bar is
  not open at the end, the trade counts of the emitted bars plus those of the bars
  discarded at finalization (volume or close not positive) sum to the number of non-late
  ticks admitted for that symbol and timeframe; the emitted bars alone sum to it when no
  finalized bar was discarded, in particular when every tick has a positive price and
  quantity.
\<close>

theorem emitted_and_discarded_counts:
  assumes "map_of (active_bars (process_ticks es new_sampler)) (sy, tf) = None"
  shows "trade_count_sum sy tf (emitted (process_ticks es new_sampler)) +
         trade_count_sum sy tf
           (filter (\<lambda>(tf, b). discarded b) (finalized (process_ticks es new_sampler)))
           = admitted sy tf es \<and>
         ((\<forall>(tf', b) \<in> set (finalized (process_ticks es new_sampler)). \<not> discarded b) \<longrightarrow>
            trade_count_sum sy tf (emitted (process_ticks es new_sampler)) = admitted sy tf es) \<and>
         (positive_ticks es \<longrightarrow>
            trade_count_sum sy tf (emitted (process_ticks es new_sampler)) = admitted sy tf es)"
proof -
  let ?s = "process_ticks es new_sampler"
  from new_sampler_inv [of sy tf] have n: "sampler_inv new_sampler"
    "total_count sy tf new_sampler = 0" by simp_all
  from process_ticks_inv_total [OF n(1), of es sy tf] n(2)
  have i: "sampler_inv ?s" and t: "total_count sy tf ?s = admitted sy tf es" by simp_all
  from i have em: "emitted ?s = filter (\<lambda>(tf, b). \<not> discarded b) (finalized ?s)"
    by (simp add: sampler_inv_def)
  from t assms have "trade_count_sum sy tf (finalized ?s) = admitted sy tf es"
    by (simp add: total_count_def open_count_def)
  with trade_count_sum_split [of sy tf "finalized ?s"] em
  have sum: "trade_count_sum sy tf (emitted ?s) +
         trade_count_sum sy tf (filter (\<lambda>(tf, b). discarded b) (finalized ?s))
           = admitted sy tf es" by simp
  have none: "trade_count_sum sy tf (emitted ?s) = admitted sy tf es"
    if "\<forall>(tf', b) \<in> set (finalized ?s). \<not> discarded b"
    using sum filter_discarded_empty [OF that] by (simp add: trade_count_sum_def)
  have "no_discard new_sampler" by (simp add: no_discard_def new_sampler_def)
  then have "\<forall>(tf', b) \<in> set (finalized ?s). \<not> discarded b" if "positive_ticks es"
    using process_ticks_no_discard [OF _ that, of new_sampler] by (simp add: no_discard_def)
  with sum none show ?thesis by blast
qed

theorem emitted_and_discarded_counts_witness:
  "map_of (active_bars (process_ticks two_trade_events new_sampler)) (''BTCUSDT'', 60) = None \<and>
   positive_ticks two_trade_events \<and>
   admitted ''BTCUSDT'' 60 two_trade_events = 2 \<and>
   trade_count_sum ''BTCUSDT'' 60 (emitted (process_ticks two_trade_events new_sampler)) = 2"
proof -
  have h: "map_of (active_bars (process_ticks two_trade_events new_sampler)) (''BTCUSDT'', 60)
             = None"
    by (simp add: two_trade_events_def sampler_defs)
  have p: "positive_ticks two_trade_events"
    by (simp add: two_trade_events_def positive_ticks_def)
  have a: "admitted ''BTCUSDT'' 60 two_trade_events = 2"
    by (simp add: two_trade_events_def sampler_defs)
  from emitted_and_discarded_counts [OF h] h p a show ?thesis by simp
qed

text \<open>
  Claim C9. A bar that \<open>_create_bar\<close> makes at a period start, and a bar after
  \<open>_update_bar\<close>, has a start time that is a multiple of its timeframe (in whole
  seconds), an end one timeframe later, \<open>high \<ge> max(open, close)\<close> and
  \<open>low \<le> min(open, close)\<close>; so has every bar the sampler holds or has finalized, and
  every bar it has emitted is one of those, after any sequence of ticks.
\<close>

theorem bars_aligned_and_bounded:
  "bar_ok tf (create_bar sy (get_period_start ts tf) tf price qty) \<and>
   (bar_ok tf b \<longrightarrow> bar_ok tf (update_bar b price qty)) \<and>
   (\<forall>(k, b) \<in> set (active_bars (process_ticks es new_sampler)). bar_ok (snd k) b) \<and>
   (\<forall>(tf, b) \<in> set (finalized (process_ticks es new_sampler)). bar_ok tf b) \<and>
   (\<forall>(tf, b) \<in> set (emitted (process_ticks es new_sampler)). bar_ok tf b)"
proof -
  from new_sampler_inv [of sy tf] have "sampler_inv new_sampler" by simp
  from process_ticks_inv_total [OF this, of es sy tf]
  have "sampler_inv (process_ticks es new_sampler)" by simp
  then show ?thesis
    by (auto simp: sampler_inv_def bar_ok_create bar_ok_update)
qed

theorem bars_aligned_and_bounded_witness:
  "(60, \<lparr>bar_symbol = ''BTCUSDT'', start_time = 0, end_time = 60000000, bar_open = 100,
         bar_high = 101, bar_low = 100, bar_close = 101, bar_volume = 3, bar_count = 2\<rparr>)
     \<in> set (emitted (process_ticks two_trade_events new_sampler)) \<and>
   bar_ok 60 \<lparr>bar_symbol = ''BTCUSDT'', start_time = 0, end_time = 60000000, bar_open = 100,
         bar_high = 101, bar_low = 100, bar_close = 101, bar_volume = 3, bar_count = 2\<rparr> \<and>
   bar_ok 60 (update_bar
     \<lparr>bar_symbol = ''BTCUSDT'', start_time = 0, end_time = 60000000, bar_open = 100,
         bar_high = 101, bar_low = 100, bar_close = 101, bar_volume = 3, bar_count = 2\<rparr> 99 1)"
proof -
  have m: "(60, \<lparr>bar_symbol = ''BTCUSDT'', start_time = 0, end_time = 60000000, bar_open = 100,
         bar_high = 101, bar_low = 100, bar_close = 101, bar_volume = 3, bar_count = 2\<rparr>)
     \<in> set (emitted (process_ticks two_trade_events new_sampler))"
    by (simp add: two_trade_events_def sampler_defs)
  note t = bars_aligned_and_bounded
    [of 60 "''BTCUSDT''" 0 99 1
        "\<lparr>bar_symbol = ''BTCUSDT'', start_time = 0, end_time = 60000000, bar_open = 100,
         bar_high = 101, bar_low = 100, bar_close = 101, bar_volume = 3, bar_count = 2\<rparr>"
        two_trade_events]
  from t m have ok: "bar_ok 60 \<lparr>bar_symbol = ''BTCUSDT'', start_time = 0, end_time = 60000000,
         bar_open = 100, bar_high = 101, bar_low = 100, bar_close = 101, bar_volume = 3,
         bar_count = 2\<rparr>" by blast
  with t m show ?thesis by blast
qed


end
